theory Spec2Isabelle
  imports Complex_Main "HOL-Library.Word" "HOL-Library.AList"
begin

section \<open>Conventions\<close>

text \<open>
  The development follows the Go sources of the Knowledge Exchange backend
  (packages \<open>models\<close>, \<open>analytics\<close> and \<open>library\<close>).

  \<^item> A \<open>float64\<close> is modelled by the real number it denotes: only finite values
    occur in the modelled code paths, and rounding is not modelled.
  \<^item> Go's \<open>int\<close> counters (uploads, downloads, ratings) are mathematical integers, and
    \<open>float64(n)\<close> is \<open>real_of_int n\<close>; \<open>int64\<close> arithmetic is written with its
    wrap-around (see \<open>int64\<close> below).
  \<^item> A \<open>time.Time\<close> is an integer number of nanoseconds; \<open>time.Now()\<close> is passed
    to the operation as an argument \<open>now\<close>.
  \<^item> A pointer to a struct held in a map is modelled by the map entry itself: a
    method that mutates the struct through the pointer returns the updated record,
    and the caller stores it back under the same key.
  \<^item> Mutexes are not modelled: every operation is one atomic step, and the steps of
    different goroutines interleave. A buffered channel is the list of the values sent
    to it and not yet received. The event channel of the reputation service has a
    reader (\<open>processEvents\<close>), and a send to it appends. The progress channel of the
    transfer manager has none: a send to it appends while there is room, and does not
    return once the channel holds as many updates as its capacity.
\<close>

type_synonym time = int
type_synonym byte = "8 word"

section \<open>Peers: \<open>models.Student\<close> and \<open>models.PeerRegistry\<close>\<close>

definition models_MinReputation :: real where
  "models_MinReputation = 3.0"

definition models_MaxReputation :: real where
  "models_MaxReputation = 10.0"

definition models_DefaultReputation :: real where
  "models_DefaultReputation = 5.0"

record Student =
  ID :: string
  Name :: string
  ReputationScore :: real
  IsLeecher :: bool
  IsOnline :: bool
  LastSeen :: time
  TotalUploads :: int
  TotalDownloads :: int
  IPAddress :: string
  Port :: int

definition NewStudent :: "string \<Rightarrow> string \<Rightarrow> string \<Rightarrow> int \<Rightarrow> time \<Rightarrow> Student" where
  "NewStudent sid name ipAddress port now =
     \<lparr>ID = sid, Name = name, ReputationScore = models_DefaultReputation,
      IsLeecher = False, IsOnline = True, LastSeen = now,
      TotalUploads = 0, TotalDownloads = 0, IPAddress = ipAddress, Port = port\<rparr>"

definition Student_CanDownload :: "Student \<Rightarrow> bool" where
  "Student_CanDownload s = (if ReputationScore s \<ge> models_MinReputation then True else False)"

definition checkLeecherStatus :: "Student \<Rightarrow> Student" where
  "checkLeecherStatus s =
     (if TotalDownloads s > 0 \<and> TotalUploads s > 0 then
        (let ratio = real_of_int (TotalDownloads s) / real_of_int (TotalUploads s)
         in s\<lparr>IsLeecher := (ratio > 3.0)\<rparr>)
      else if TotalDownloads s > 5 \<and> TotalUploads s = 0 then
        s\<lparr>IsLeecher := True\<rparr>
      else s)"

definition UpdateReputation :: "Student \<Rightarrow> real \<Rightarrow> Student" where
  "UpdateReputation s delta =
     (let s1 = s\<lparr>ReputationScore := ReputationScore s + delta\<rparr>;
          s2 = (if ReputationScore s1 > models_MaxReputation
                  then s1\<lparr>ReputationScore := models_MaxReputation\<rparr>
                else if ReputationScore s1 < 0
                  then s1\<lparr>ReputationScore := 0\<rparr>
                else s1)
      in checkLeecherStatus s2)"

definition Student_RecordUpload :: "Student \<Rightarrow> time \<Rightarrow> Student" where
  "Student_RecordUpload s now =
     (UpdateReputation (s\<lparr>TotalUploads := TotalUploads s + 1\<rparr>) 0.5)\<lparr>LastSeen := now\<rparr>"

definition Student_RecordDownload :: "Student \<Rightarrow> time \<Rightarrow> Student" where
  "Student_RecordDownload s now =
     checkLeecherStatus (s\<lparr>TotalDownloads := TotalDownloads s + 1, LastSeen := now\<rparr>)"

type_synonym PeerRegistry = "string \<rightharpoonup> Student"

definition NewPeerRegistry :: PeerRegistry where
  "NewPeerRegistry = Map.empty"

definition Register :: "PeerRegistry \<Rightarrow> Student \<Rightarrow> PeerRegistry" where
  "Register pr student = pr(ID student \<mapsto> student)"

definition Unregister :: "PeerRegistry \<Rightarrow> string \<Rightarrow> PeerRegistry" where
  "Unregister pr sid = pr(sid := None)"

definition PeerRegistry_Get :: "PeerRegistry \<Rightarrow> string \<Rightarrow> Student option" where
  "PeerRegistry_Get pr sid = pr sid"

section \<open>Reputation: \<open>analytics.ReputationService\<close>\<close>

definition analytics_MinReputation :: real where
  "analytics_MinReputation = 0.0"

definition analytics_MaxReputation :: real where
  "analytics_MaxReputation = 10.0"

definition DownloadThreshold :: real where
  "DownloadThreshold = 3.0"

definition UploadBonus :: real where
  "UploadBonus = 0.5"

definition DownloadPenalty :: real where
  "DownloadPenalty = 0.1"

definition GoodRatingBonus :: real where
  "GoodRatingBonus = 0.3"

definition BadRatingPenalty :: real where
  "BadRatingPenalty = 0.2"

definition LeecherPenalty :: real where
  "LeecherPenalty = 0.5"

definition InactivityDecay :: real where
  "InactivityDecay = 0.1"

record ReputationEvent =
  Type :: string
  StudentID :: string
  Delta :: real
  Reason :: string
  Timestamp :: time

definition EventUpload :: string where
  "EventUpload = ''UPLOAD''"

definition EventDownload :: string where
  "EventDownload = ''DOWNLOAD''"

definition EventRating :: string where
  "EventRating = ''RATING''"

definition EventLeeching :: string where
  "EventLeeching = ''LEECHING''"

definition EventInactivity :: string where
  "EventInactivity = ''INACTIVITY''"

text \<open>
  The service holds the registry, the event channel and the history. The channel is a
  FIFO queue: a \<open>Record...\<close> method appends one event to it (or none), and the single
  consumer \<open>processEvents\<close> takes the events off in that order and applies each one.
\<close>

record ReputationService =
  peerRegistry :: PeerRegistry
  eventChan :: "ReputationEvent list"
  eventHistory :: "ReputationEvent list"

definition NewReputationService :: "PeerRegistry \<Rightarrow> ReputationService" where
  "NewReputationService pr = \<lparr>peerRegistry = pr, eventChan = [], eventHistory = []\<rparr>"

definition CalculateReputation :: "Student \<Rightarrow> real" where
  "CalculateReputation student =
     (let base = ReputationScore student;
          base1 = (if TotalDownloads student > 0 then
                     (let ratio = real_of_int (TotalUploads student) /
                                  real_of_int (TotalDownloads student)
                      in if ratio < 0.5 then base - 1.0
                         else if ratio > 1.5 then base + 0.5
                         else base)
                   else base);
          base2 = (if base1 < analytics_MinReputation then analytics_MinReputation else base1);
          base3 = (if base2 > analytics_MaxReputation then analytics_MaxReputation else base2)
      in base3)"

text \<open>
  \<open>fmt.Sprintf("%.1f", x)\<close>: the decimal expansion of \<open>x\<close> with one digit after the
  point, rounded to nearest, ties to even.
\<close>

definition round_half_even :: "real \<Rightarrow> int" where
  "round_half_even x =
     (let f = \<lfloor>x\<rfloor>; d = x - of_int f
      in if d < 1/2 then f else if d > 1/2 then f + 1 else if even f then f else f + 1)"

definition digit :: "nat \<Rightarrow> char" where
  "digit n = (if n < 16 then ''0123456789abcdef'' ! n else CHR ''?'')"

fun decimal :: "nat \<Rightarrow> string" where
  "decimal n = (if n < 10 then [digit n] else decimal (n div 10) @ [digit (n mod 10)])"

definition fmt_1f :: "real \<Rightarrow> string" where
  "fmt_1f x =
     (let t = nat (round_half_even (\<bar>x\<bar> * 10))
      in (if x < 0 then ''-'' else []) @ decimal (t div 10) @ ''.'' @ [digit (t mod 10)])"

definition ReputationService_CanDownload :: "ReputationService \<Rightarrow> string \<Rightarrow> bool \<times> string" where
  "ReputationService_CanDownload rs studentID =
     (case PeerRegistry_Get (peerRegistry rs) studentID of
        None \<Rightarrow> (False, ''Student not found'')
      | Some student \<Rightarrow>
          (let reputation = CalculateReputation student
           in if reputation < DownloadThreshold then
                (False, ''Insufficient reputation ('' @ fmt_1f reputation @ '' < '' @
                          fmt_1f DownloadThreshold @ '')'')
              else (True, ''Allowed'')))"

definition ReputationService_RecordUpload ::
  "ReputationService \<Rightarrow> string \<Rightarrow> time \<Rightarrow> ReputationService" where
  "ReputationService_RecordUpload rs studentID now =
     rs\<lparr>eventChan := eventChan rs @
        [\<lparr>Type = EventUpload, StudentID = studentID, Delta = UploadBonus,
          Reason = ''Shared a file'', Timestamp = now\<rparr>]\<rparr>"

definition ReputationService_RecordDownload ::
  "ReputationService \<Rightarrow> string \<Rightarrow> time \<Rightarrow> ReputationService" where
  "ReputationService_RecordDownload rs studentID now =
     rs\<lparr>eventChan := eventChan rs @
        [\<lparr>Type = EventDownload, StudentID = studentID, Delta = - DownloadPenalty,
          Reason = ''Downloaded a file'', Timestamp = now\<rparr>]\<rparr>"

definition RecordRating ::
  "ReputationService \<Rightarrow> string \<Rightarrow> real \<Rightarrow> time \<Rightarrow> ReputationService" where
  "RecordRating rs studentID ratingScore now =
     (if ratingScore \<ge> 4.0 then
        rs\<lparr>eventChan := eventChan rs @
           [\<lparr>Type = EventRating, StudentID = studentID, Delta = GoodRatingBonus,
             Reason = ''Received good rating'', Timestamp = now\<rparr>]\<rparr>
      else if ratingScore \<le> 2.0 then
        rs\<lparr>eventChan := eventChan rs @
           [\<lparr>Type = EventRating, StudentID = studentID, Delta = - BadRatingPenalty,
             Reason = ''Received bad rating'', Timestamp = now\<rparr>]\<rparr>
      else rs)"

definition RecordLeeching ::
  "ReputationService \<Rightarrow> string \<Rightarrow> time \<Rightarrow> ReputationService" where
  "RecordLeeching rs studentID now =
     rs\<lparr>eventChan := eventChan rs @
        [\<lparr>Type = EventLeeching, StudentID = studentID, Delta = - LeecherPenalty,
          Reason = ''Detected as leecher'', Timestamp = now\<rparr>]\<rparr>"

definition applyEvent :: "ReputationService \<Rightarrow> ReputationEvent \<Rightarrow> ReputationService" where
  "applyEvent rs event =
     (case PeerRegistry_Get (peerRegistry rs) (StudentID event) of
        None \<Rightarrow> rs
      | Some student \<Rightarrow>
          rs\<lparr>peerRegistry := (peerRegistry rs)(StudentID event \<mapsto>
                                UpdateReputation student (Delta event)),
             eventHistory := eventHistory rs @ [event]\<rparr>)"

definition processEvents :: "ReputationService \<Rightarrow> ReputationService" where
  "processEvents rs = foldl applyEvent (rs\<lparr>eventChan := []\<rparr>) (eventChan rs)"

definition inactiveThreshold :: int where
  "inactiveThreshold = 24 * 3600 * 1000000000"

text \<open>
  \<open>applyInactivityDecay\<close> walks the slice returned by \<open>GetAllPeers\<close>; the order of a Go
  map iteration is not fixed, so the keys are passed in the order \<open>ids\<close> they were visited.
\<close>

definition applyInactivityDecay ::
  "ReputationService \<Rightarrow> string list \<Rightarrow> time \<Rightarrow> ReputationService" where
  "applyInactivityDecay rs ids now =
     foldl (\<lambda>rs' sid.
              case peerRegistry rs' sid of
                None \<Rightarrow> rs'
              | Some peer \<Rightarrow>
                  if now - LastSeen peer > inactiveThreshold then
                    applyEvent rs' \<lparr>Type = EventInactivity, StudentID = ID peer,
                                   Delta = - InactivityDecay,
                                   Reason = ''Extended inactivity'', Timestamp = now\<rparr>
                  else rs')
           rs ids"

subsection \<open>The score bounds and the effective score of the specification\<close>

definition reputation_in_range :: "Student \<Rightarrow> bool" where
  "reputation_in_range s = (0 \<le> ReputationScore s \<and> ReputationScore s \<le> 10)"


text \<open>
  The effective score as the specification words it: the stored score, minus 1.0 when
  the upload/download ratio is below 0.5, plus 0.5 when it is above 1.5, clamped to
  \<open>[0, 10]\<close>. The ratio exists only for a peer that has downloaded something.
\<close>

definition spec_effective_score :: "Student \<Rightarrow> real" where
  "spec_effective_score s =
     (let ratio = real_of_int (TotalUploads s) / real_of_int (TotalDownloads s);
          adjustment = (if TotalDownloads s > 0 \<and> ratio < 0.5 then - 1.0
                        else if TotalDownloads s > 0 \<and> ratio > 1.5 then 0.5
                        else 0)
      in max 0 (min 10 (ReputationScore s + adjustment)))"


section \<open>Files: \<open>models.AcademicFile\<close> and \<open>models.FileIndex\<close>\<close>

text \<open>
  \<open>crypto/sha256\<close> belongs to the Go library, not to the repository: the digest is a
  parameter \<open>sha256\<close> of every operation that hashes, and all results hold for any
  function in its place. \<open>hex.EncodeToString\<close> writes two lower-case hexadecimal digits
  per byte.
\<close>

type_synonym digest = "byte list \<Rightarrow> byte list"

definition EncodeToString :: "byte list \<Rightarrow> string" where
  "EncodeToString bs = concat (map (\<lambda>b. [digit (unat b div 16), digit (unat b mod 16)]) bs)"

definition models_GenerateCID :: "digest \<Rightarrow> byte list \<Rightarrow> string" where
  "models_GenerateCID sha256 content = EncodeToString (sha256 content)"

definition GenerateChecksum :: "digest \<Rightarrow> byte list \<Rightarrow> string" where
  "GenerateChecksum sha256 content = EncodeToString (sha256 content)"

record AcademicFile =
  CID :: string
  FileName :: string
  OwnerID :: string
  Size :: int
  FileType :: string
  Description :: string
  Subject :: string
  UploadTime :: time
  DownloadCount :: int
  AverageRating :: real
  TotalRatings :: int
  PeerLocations :: "string list"
  IsAvailable :: bool
  Checksum :: string

definition NewAcademicFile ::
  "digest \<Rightarrow> string \<Rightarrow> string \<Rightarrow> int \<Rightarrow> string \<Rightarrow> byte list \<Rightarrow> time \<Rightarrow> AcademicFile" where
  "NewAcademicFile sha256 fileName ownerID fsize fileType content now =
     (let cid = models_GenerateCID sha256 content;
          checksum = GenerateChecksum sha256 content
      in \<lparr>CID = cid, FileName = fileName, OwnerID = ownerID, Size = fsize,
          FileType = fileType, Description = [], Subject = [], UploadTime = now,
          DownloadCount = 0, AverageRating = 0.0, TotalRatings = 0,
          PeerLocations = [ownerID], IsAvailable = True, Checksum = checksum\<rparr>)"

definition AddPeerLocation :: "AcademicFile \<Rightarrow> string \<Rightarrow> AcademicFile" where
  "AddPeerLocation f peerID =
     (if peerID \<in> set (PeerLocations f) then f
      else f\<lparr>PeerLocations := PeerLocations f @ [peerID]\<rparr>)"

definition RemovePeerLocation :: "AcademicFile \<Rightarrow> string \<Rightarrow> AcademicFile" where
  "RemovePeerLocation f peerID =
     (let newLocations = filter (\<lambda>i. i \<noteq> peerID) (PeerLocations f)
      in f\<lparr>PeerLocations := newLocations, IsAvailable := (length newLocations > 0)\<rparr>)"

text \<open>A call of one of the two location methods, and a sequence of such calls.\<close>

datatype location_call = AddLocation string | RemoveLocation string

fun call_location :: "AcademicFile \<Rightarrow> location_call \<Rightarrow> AcademicFile" where
  "call_location f (AddLocation p) = AddPeerLocation f p"
| "call_location f (RemoveLocation p) = RemovePeerLocation f p"


definition VerifyIntegrity :: "digest \<Rightarrow> AcademicFile \<Rightarrow> byte list \<Rightarrow> bool" where
  "VerifyIntegrity sha256 f content = (GenerateChecksum sha256 content = Checksum f)"

text \<open>
  The index is a Go map from CID to file. It is kept as an association list with one
  entry per key; the list order stands for the order in which a \<open>range\<close> over the map
  visits the entries, which Go leaves open.
\<close>

type_synonym FileIndex = "(string \<times> AcademicFile) list"

definition NewFileIndex :: FileIndex where
  "NewFileIndex = []"

definition FileIndex_Add :: "FileIndex \<Rightarrow> AcademicFile \<Rightarrow> FileIndex" where
  "FileIndex_Add fi file = AList.update (CID file) file fi"

definition FileIndex_Get :: "FileIndex \<Rightarrow> string \<Rightarrow> AcademicFile option" where
  "FileIndex_Get fi cid = map_of fi cid"

definition FileIndex_Remove :: "FileIndex \<Rightarrow> string \<Rightarrow> FileIndex" where
  "FileIndex_Remove fi cid = AList.delete cid fi"

definition FileIndex_Count :: "FileIndex \<Rightarrow> nat" where
  "FileIndex_Count fi = length fi"

definition containsIgnoreCase :: "string \<Rightarrow> string \<Rightarrow> bool" where
  "containsIgnoreCase s substr =
     (length s > 0 \<and> length substr > 0 \<and> (s = substr \<or> length s > length substr))"

definition Search :: "FileIndex \<Rightarrow> string \<Rightarrow> AcademicFile list" where
  "Search fi query =
     map snd (filter (\<lambda>(cid, file).
                        containsIgnoreCase (FileName file) query \<or>
                        containsIgnoreCase (Description file) query \<or>
                        containsIgnoreCase (Subject file) query) fi)"

text \<open>
  What the specification asks of \<open>Search\<close>: the query occurs in the field as a
  substring once both are put in lower case (ASCII letters).
\<close>

definition ascii_lower :: "char \<Rightarrow> char" where
  "ascii_lower c =
     (case List.find (\<lambda>(u, l). u = c)
             (zip ''ABCDEFGHIJKLMNOPQRSTUVWXYZ'' ''abcdefghijklmnopqrstuvwxyz'') of
        Some (u, l) \<Rightarrow> l
      | None \<Rightarrow> c)"

definition spec_contains :: "string \<Rightarrow> string \<Rightarrow> bool" where
  "spec_contains s sub =
     list_ex (\<lambda>i. take (length sub) (drop i s) = sub) [0..<Suc (length s)]"

definition spec_contains_ignore_case :: "string \<Rightarrow> string \<Rightarrow> bool" where
  "spec_contains_ignore_case s sub = spec_contains (map ascii_lower s) (map ascii_lower sub)"

definition spec_Search :: "FileIndex \<Rightarrow> string \<Rightarrow> AcademicFile list" where
  "spec_Search fi query =
     map snd (filter (\<lambda>(cid, file).
                        spec_contains_ignore_case (FileName file) query \<or>
                        spec_contains_ignore_case (Description file) query \<or>
                        spec_contains_ignore_case (Subject file) query) fi)"


section \<open>Throttling: \<open>analytics.Throttler\<close>\<close>

text \<open>
  The throttler's counters are \<open>int64\<close>. Their arithmetic is written with the
  wrap-around of Go's signed integers (\<open>int64\<close>) and with Go's division, which
  truncates towards zero; dividing by zero panics.
\<close>

definition int64 :: "int \<Rightarrow> int" where
  "int64 x = (x + 2 ^ 63) mod 2 ^ 64 - 2 ^ 63"

definition go_quot :: "int \<Rightarrow> int \<Rightarrow> int" where
  "go_quot a b =
     int64 (if (a < 0) = (b < 0) then \<bar>a\<bar> div \<bar>b\<bar> else - (\<bar>a\<bar> div \<bar>b\<bar>))"

definition LeecherBandwidth :: int where
  "LeecherBandwidth = 50 * 1024"

definition NormalBandwidth :: int where
  "NormalBandwidth = 500 * 1024"

definition PremiumBandwidth :: int where
  "PremiumBandwidth = 5 * 1024 * 1024"

definition LeecherThreshold :: real where
  "LeecherThreshold = 3.0"

definition PremiumThreshold :: real where
  "PremiumThreshold = 8.0"

definition TokenBucketSize :: int where
  "TokenBucketSize = 10"

datatype BandwidthTier = TierLeecher | TierNormal | TierPremium

fun GetBandwidth :: "BandwidthTier \<Rightarrow> int" where
  "GetBandwidth TierLeecher = LeecherBandwidth"
| "GetBandwidth TierNormal = NormalBandwidth"
| "GetBandwidth TierPremium = PremiumBandwidth"

record Throttler =
  peerID :: string
  tier :: BandwidthTier
  bandwidth :: int
  tokens :: int
  maxTokens :: int
  tokenSize :: int
  isRunning :: bool

definition determineTier :: "real \<Rightarrow> BandwidthTier" where
  "determineTier reputation =
     (if reputation < LeecherThreshold then TierLeecher
      else if reputation \<ge> PremiumThreshold then TierPremium
      else TierNormal)"

definition NewThrottler :: "string \<Rightarrow> real \<Rightarrow> Throttler" where
  "NewThrottler pid reputation =
     (let tr = determineTier reputation;
          bw = GetBandwidth tr;
          ts = go_quot bw TokenBucketSize
      in \<lparr>peerID = pid, tier = tr, bandwidth = bw, tokens = TokenBucketSize,
          maxTokens = TokenBucketSize, tokenSize = ts, isRunning = False\<rparr>)"

text \<open>One tick of the refill goroutine started by \<open>Start\<close>: one token, up to the bucket size.\<close>

definition refill :: "Throttler \<Rightarrow> Throttler" where
  "refill t =
     (if tokens t < maxTokens t then
        (let t1 = t\<lparr>tokens := int64 (tokens t + 1)\<rparr>
         in if tokens t1 > maxTokens t1 then t1\<lparr>tokens := maxTokens t1\<rparr> else t1)
      else t)"

text \<open>
  \<open>Acquire\<close> loops until it can grant something. Between two attempts it sleeps for one
  refill interval, while the refill goroutine may tick; \<open>ticks\<close> lists, for each sleep,
  how many ticks fell into it. When the list is used up and nothing could be granted the
  call is still waiting (\<open>Blocked\<close>).
\<close>

datatype acquire_result = Granted int Throttler | Blocked Throttler | DivideByZero

fun Acquire_loop :: "Throttler \<Rightarrow> int \<Rightarrow> int \<Rightarrow> nat list \<Rightarrow> acquire_result" where
  "Acquire_loop t bytes tokensNeeded [] =
     (if tokens t \<ge> tokensNeeded then
        Granted bytes (t\<lparr>tokens := int64 (tokens t - tokensNeeded)\<rparr>)
      else if tokens t > 0 then
        Granted (int64 (tokens t * tokenSize t)) (t\<lparr>tokens := 0\<rparr>)
      else Blocked t)"
| "Acquire_loop t bytes tokensNeeded (k # ticks) =
     (if tokens t \<ge> tokensNeeded then
        Granted bytes (t\<lparr>tokens := int64 (tokens t - tokensNeeded)\<rparr>)
      else if tokens t > 0 then
        Granted (int64 (tokens t * tokenSize t)) (t\<lparr>tokens := 0\<rparr>)
      else Acquire_loop ((refill ^^ k) t) bytes tokensNeeded ticks)"

definition Acquire :: "Throttler \<Rightarrow> int \<Rightarrow> nat list \<Rightarrow> acquire_result" where
  "Acquire t bytes ticks =
     (if tokenSize t = 0 then DivideByZero
      else Acquire_loop t bytes
             (go_quot (int64 (int64 (bytes + tokenSize t) - 1)) (tokenSize t)) ticks)"

definition GetAvailableBytes :: "Throttler \<Rightarrow> int" where
  "GetAvailableBytes t = int64 (tokens t * tokenSize t)"

definition Throttler_UpdateReputation :: "Throttler \<Rightarrow> real \<Rightarrow> Throttler" where
  "Throttler_UpdateReputation t newReputation =
     (let newTier = determineTier newReputation
      in if newTier \<noteq> tier t then
           t\<lparr>tier := newTier, bandwidth := GetBandwidth newTier,
             tokenSize := go_quot (GetBandwidth newTier) TokenBucketSize\<rparr>
         else t)"


section \<open>Transfers: \<open>library.TransferManager\<close>\<close>

definition TransferPending :: string where
  "TransferPending = ''pending''"

definition TransferActive :: string where
  "TransferActive = ''active''"

definition TransferCompleted :: string where
  "TransferCompleted = ''completed''"

definition TransferFailed :: string where
  "TransferFailed = ''failed''"

definition TransferCancelled :: string where
  "TransferCancelled = ''cancelled''"

definition TransferBufferSize :: int where
  "TransferBufferSize = 32 * 1024"

text \<open>
  The fields \<open>ID\<close>, \<open>CID\<close> and \<open>FileName\<close> of \<open>Transfer\<close> carry the prefix
  \<open>Transfer\<close> here, the names being taken by the records above; likewise the fields of
  \<open>ProgressUpdate\<close> carry the prefix \<open>Update\<close>.
\<close>

record Transfer =
  TransferID :: string
  TransferCID :: string
  TransferFileName :: string
  PeerID :: string
  Direction :: string
  Status :: string
  TotalBytes :: int
  SentBytes :: int
  StartTime :: time
  EndTime :: time
  Error :: string
  Progress :: real

record ProgressUpdate =
  UpdateTransferID :: string
  UpdateBytesSent :: int
  UpdateTotalBytes :: int
  UpdateProgress :: real

text \<open>
  A \<open>*Transfer\<close> is the key of its entry in \<open>tm.transfers\<close>: both callers put the record
  into the map (\<open>addTransfer\<close>) before they stream, and the streaming code and
  \<open>CancelTransfer\<close> work on that one record. The progress channel is the list of the
  updates sent to it; nothing takes them off.
\<close>

record TransferManager =
  transfers :: "string \<rightharpoonup> Transfer"
  progressChan :: "ProgressUpdate list"
  totalUploads :: int
  totalDownloads :: int
  bytesUploaded :: int
  bytesDownloaded :: int

definition NewTransferManager :: TransferManager where
  "NewTransferManager =
     \<lparr>transfers = Map.empty, progressChan = [], totalUploads = 0, totalDownloads = 0,
      bytesUploaded = 0, bytesDownloaded = 0\<rparr>"

definition with_transfer ::
  "TransferManager \<Rightarrow> string \<Rightarrow> (Transfer \<Rightarrow> Transfer) \<Rightarrow> TransferManager" where
  "with_transfer tm tid f =
     (case transfers tm tid of
        None \<Rightarrow> tm
      | Some t \<Rightarrow> tm\<lparr>transfers := (transfers tm)(tid \<mapsto> f t)\<rparr>)"

definition addTransfer :: "TransferManager \<Rightarrow> Transfer \<Rightarrow> TransferManager" where
  "addTransfer tm t = tm\<lparr>transfers := (transfers tm)(TransferID t \<mapsto> t)\<rparr>"

definition completeTransfer :: "TransferManager \<Rightarrow> string \<Rightarrow> time \<Rightarrow> TransferManager" where
  "completeTransfer tm tid now =
     with_transfer tm tid
       (\<lambda>t. (if Status t = TransferActive then t\<lparr>Status := TransferCompleted\<rparr> else t)
              \<lparr>EndTime := now\<rparr>)"

definition GetTransfer :: "TransferManager \<Rightarrow> string \<Rightarrow> Transfer option" where
  "GetTransfer tm tid = transfers tm tid"

text \<open>\<open>CancelTransfer\<close> returns the error, if any, and the manager.\<close>

definition CancelTransfer ::
  "TransferManager \<Rightarrow> string \<Rightarrow> time \<Rightarrow> string option \<times> TransferManager" where
  "CancelTransfer tm tid now =
     (case transfers tm tid of
        None \<Rightarrow> (Some (''transfer not found: '' @ tid), tm)
      | Some t \<Rightarrow>
          if Status t \<noteq> TransferActive then (Some ''transfer is not active'', tm)
          else (None, tm\<lparr>transfers := (transfers tm)
                            (tid \<mapsto> t\<lparr>Status := TransferCancelled, EndTime := now\<rparr>)\<rparr>))"

subsection \<open>Files, connections and their failures\<close>

text \<open>
  The file system maps a path to the bytes of the file. A call of \<open>Read\<close> returns the
  bytes read and an error, which is \<open>io.EOF\<close> or another error with its message; the
  results of the successive calls on one file or connection form a list, and a list
  that is used up reads as \<open>io.EOF\<close>. The results of the successive calls of \<open>Write\<close>
  form a list of optional error messages; a list that is used up writes without error.
\<close>

type_synonym filesystem = "string \<rightharpoonup> byte list"

datatype io_error = EOF | IOError string

type_synonym read_result = "byte list \<times> io_error option"


text \<open>
  \<open>utils.HashFile\<close>: \<open>Inl\<close> the error message, \<open>Inr\<close> the hexadecimal digest. \<open>copy_err\<close> is
  the error of \<open>io.Copy\<close>, if any.
\<close>

definition HashFile ::
  "digest \<Rightarrow> filesystem \<Rightarrow> string option \<Rightarrow> string \<Rightarrow> string + string" where
  "HashFile sha256 fs copy_err filePath =
     (case fs filePath of
        None \<Rightarrow> Inl ''failed to open file: no such file''
      | Some content \<Rightarrow>
          (case copy_err of
             Some e \<Rightarrow> Inl (''failed to hash file: '' @ e)
           | None \<Rightarrow> Inr (EncodeToString (sha256 content))))"

subsection \<open>The progress channel\<close>

text \<open>
  \<open>progressChan\<close> is made with room for 100 updates. Both streaming loops send one update
  per chunk, and nothing in the repository receives from the channel
  (\<open>GetProgressChannel\<close> has no caller). A send to a channel with room appends the update;
  a send to a full channel does not return. A call that is stuck in such a send is
  \<open>Waiting\<close>, in the state it had reached; a call that came back is \<open>Returned\<close> with its
  results.
\<close>

definition ProgressChanCapacity :: nat where
  "ProgressChanCapacity = 100"

definition send_progress :: "TransferManager \<Rightarrow> ProgressUpdate \<Rightarrow> TransferManager option" where
  "send_progress tm u =
     (if length (progressChan tm) < ProgressChanCapacity
      then Some (tm\<lparr>progressChan := progressChan tm @ [u]\<rparr>)
      else None)"

datatype ('r, 's) call = Returned 'r | Waiting 's

subsection \<open>The upload path: \<open>streamFile\<close>\<close>

text \<open>
  The state of a stream is the manager and the bytes written to the connection so far.
  \<open>open_err\<close> is the error of \<open>os.Open\<close>, \<open>reads\<close> are the results of \<open>file.Read\<close> and
  \<open>write_errs\<close> those of \<open>conn.Write\<close>. \<open>streamFile_loop\<close> is the \<open>for\<close> loop together with
  the statements after it.
\<close>

fun streamFile_loop ::
  "read_result list \<Rightarrow> string option list \<Rightarrow> string \<Rightarrow> time \<Rightarrow>
   TransferManager \<times> byte list \<Rightarrow>
   (string option \<times> TransferManager \<times> byte list, TransferManager \<times> byte list) call" where
  "streamFile_loop [] write_errs tid now (tm, wire) =
     Returned (None,
      (with_transfer tm tid (\<lambda>t. t\<lparr>Status := TransferCompleted, EndTime := now\<rparr>))
        \<lparr>totalUploads := int64 (totalUploads tm + 1),
         bytesUploaded := int64 (bytesUploaded tm +
            (case transfers tm tid of None \<Rightarrow> 0 | Some t \<Rightarrow> TotalBytes t))\<rparr>,
      wire)"
| "streamFile_loop ((data, err) # reads) write_errs tid now (tm, wire) =
     (case err of
        Some EOF \<Rightarrow> streamFile_loop [] write_errs tid now (tm, wire)
      | Some (IOError e) \<Rightarrow>
          Returned (Some (''failed to read file: '' @ e),
           with_transfer tm tid (\<lambda>t. t\<lparr>Status := TransferFailed, Error := e\<rparr>), wire)
      | None \<Rightarrow>
          (case write_errs of
             Some e # _ \<Rightarrow>
               Returned (Some (''failed to send data: '' @ e),
                with_transfer tm tid (\<lambda>t. t\<lparr>Status := TransferFailed, Error := e\<rparr>), wire)
           | _ \<Rightarrow>
               (let tm1 = with_transfer tm tid
                            (\<lambda>t. t\<lparr>SentBytes := int64 (SentBytes t + int (length data)),
                                   Progress := real_of_int (int64 (SentBytes t + int (length data)))
                                               / real_of_int (TotalBytes t) * 100\<rparr>)
                in case transfers tm1 tid of
                     None \<Rightarrow> streamFile_loop reads (tl write_errs) tid now (tm1, wire @ data)
                   | Some t \<Rightarrow>
                       (case send_progress tm1
                               \<lparr>UpdateTransferID = TransferID t,
                                UpdateBytesSent = SentBytes t,
                                UpdateTotalBytes = TotalBytes t,
                                UpdateProgress = Progress t\<rparr> of
                          None \<Rightarrow> Waiting (tm1, wire @ data)
                        | Some tm2 \<Rightarrow>
                            streamFile_loop reads (tl write_errs) tid now (tm2, wire @ data)))))"

definition streamFile ::
  "string option \<Rightarrow> read_result list \<Rightarrow> string option list \<Rightarrow> string \<Rightarrow> time \<Rightarrow>
   TransferManager \<times> byte list \<Rightarrow>
   (string option \<times> TransferManager \<times> byte list, TransferManager \<times> byte list) call" where
  "streamFile open_err reads write_errs tid now st =
     (case open_err of
        Some e \<Rightarrow> Returned (Some (''failed to open file: '' @ e), st)
      | None \<Rightarrow> streamFile_loop reads write_errs tid now st)"

subsection \<open>The download path: \<open>receiveFile\<close>\<close>

text \<open>
  The state of a reception is the manager and the file system. \<open>create_err\<close> is the error
  of \<open>os.Create\<close>, \<open>conn\<close> are the results of \<open>conn.Read\<close>, \<open>write_errs\<close> those of
  \<open>file.Write\<close>, and \<open>copy_err\<close> the error inside \<open>HashFile\<close>. \<open>os.Create\<close> truncates the file;
  a write appends to it; \<open>os.Remove\<close> deletes it. \<open>receive_loop\<close> is the \<open>for\<close> loop: it
  returns the error it stopped on, if any.
\<close>

fun receive_loop ::
  "string \<Rightarrow> int \<Rightarrow> string \<Rightarrow> read_result list \<Rightarrow> string option list \<Rightarrow> int \<Rightarrow>
   TransferManager \<times> filesystem \<Rightarrow>
   (string option \<times> TransferManager \<times> filesystem, TransferManager \<times> filesystem) call" where
  "receive_loop savePath fileSize tid [] write_errs received (tm, fs) = Returned (None, tm, fs)"
| "receive_loop savePath fileSize tid ((data, err) # conn) write_errs received (tm, fs) =
     (if \<not> received < fileSize then Returned (None, tm, fs)
      else
        (case err of
           Some EOF \<Rightarrow> Returned (None, tm, fs)
         | Some (IOError e) \<Rightarrow>
             Returned (Some (''failed to receive data: '' @ e),
              with_transfer tm tid (\<lambda>t. t\<lparr>Status := TransferFailed, Error := e\<rparr>), fs)
         | None \<Rightarrow>
             (case write_errs of
                Some e # _ \<Rightarrow>
                  Returned (Some (''failed to write data: '' @ e),
                   with_transfer tm tid (\<lambda>t. t\<lparr>Status := TransferFailed, Error := e\<rparr>), fs)
              | _ \<Rightarrow>
                  (let fs1 = fs(savePath \<mapsto>
                               (case fs savePath of None \<Rightarrow> [] | Some old \<Rightarrow> old) @ data);
                       received1 = int64 (received + int (length data));
                       progress = real_of_int received1 / real_of_int fileSize * 100;
                       tm1 = with_transfer tm tid
                               (\<lambda>t. t\<lparr>SentBytes := received1, Progress := progress\<rparr>)
                   in case transfers tm1 tid of
                        None \<Rightarrow>
                          receive_loop savePath fileSize tid conn (tl write_errs) received1
                            (tm1, fs1)
                      | Some t \<Rightarrow>
                          (case send_progress tm1
                                  \<lparr>UpdateTransferID = TransferID t,
                                   UpdateBytesSent = received1,
                                   UpdateTotalBytes = fileSize,
                                   UpdateProgress = progress\<rparr> of
                             None \<Rightarrow> Waiting (tm1, fs1)
                           | Some tm2 \<Rightarrow>
                               receive_loop savePath fileSize tid conn (tl write_errs) received1
                                 (tm2, fs1))))))"

definition receiveFile ::
  "digest \<Rightarrow> string option \<Rightarrow> read_result list \<Rightarrow> string option list \<Rightarrow> string option \<Rightarrow>
   string \<Rightarrow> int \<Rightarrow> string \<Rightarrow> string \<Rightarrow> time \<Rightarrow>
   TransferManager \<times> filesystem \<Rightarrow>
   (string option \<times> TransferManager \<times> filesystem, TransferManager \<times> filesystem) call" where
  "receiveFile sha256 create_err conn write_errs copy_err savePath fileSize checksum tid now st =
     (case create_err of
        Some e \<Rightarrow> Returned (Some (''failed to create file: '' @ e), st)
      | None \<Rightarrow>
          (case receive_loop savePath fileSize tid conn write_errs 0
                  (fst st, (snd st)(savePath \<mapsto> [])) of
             Waiting st1 \<Rightarrow> Waiting st1
           | Returned (Some e, tm1, fs1) \<Rightarrow> Returned (Some e, tm1, fs1)
           | Returned (None, tm1, fs1) \<Rightarrow>
               (case HashFile sha256 fs1 copy_err savePath of
                  Inl e \<Rightarrow> Returned (Some (''failed to compute checksum: '' @ e), tm1, fs1)
                | Inr computedChecksum \<Rightarrow>
                    if computedChecksum \<noteq> checksum then
                      Returned (Some ''checksum verification failed'',
                       with_transfer tm1 tid
                         (\<lambda>t. t\<lparr>Status := TransferFailed,
                                Error := ''Checksum verification failed''\<rparr>),
                       fs1(savePath := None))
                    else
                      Returned (None,
                       (with_transfer tm1 tid
                          (\<lambda>t. t\<lparr>Status := TransferCompleted, EndTime := now\<rparr>))
                         \<lparr>totalDownloads := int64 (totalDownloads tm1 + 1),
                          bytesDownloaded := int64 (bytesDownloaded tm1 + fileSize)\<rparr>,
                       fs1))))"


fun chunks_received :: "int \<Rightarrow> read_result list \<Rightarrow> int \<Rightarrow> nat" where
  "chunks_received fileSize [] received = 0"
| "chunks_received fileSize ((data, err) # conn) received =
     (if received < fileSize \<and> err = None
      then Suc (chunks_received fileSize conn (int64 (received + int (length data))))
      else 0)"

definition no_read_error :: "read_result list \<Rightarrow> bool" where
  "no_read_error conn = list_all (\<lambda>(data, err). err = None \<or> err = Some EOF) conn"

definition no_write_error :: "string option list \<Rightarrow> bool" where
  "no_write_error write_errs = list_all (\<lambda>e. e = None) write_errs"

subsection \<open>A download about to start\<close>





subsection \<open>An upload in progress\<close>

text \<open>
  An active upload of a four-byte file, and the manager after \<open>streamFile\<close> has sent the
  first chunk of two bytes.
\<close>

definition upload_t1 :: Transfer where
  "upload_t1 =
     \<lparr>TransferID = ''t1'', TransferCID = ''01020304'', TransferFileName = ''notes.pdf'',
      PeerID = ''p2'', Direction = ''upload'', Status = TransferActive,
      TotalBytes = 4, SentBytes = 0, StartTime = 1, EndTime = 0, Error = [],
      Progress = 0\<rparr>"

definition upload_after_first_chunk :: TransferManager where
  "upload_after_first_chunk =
     \<lparr>transfers = [''t1'' \<mapsto> upload_t1\<lparr>SentBytes := 2, Progress := 50\<rparr>],
      progressChan = [\<lparr>UpdateTransferID = ''t1'', UpdateBytesSent = 2,
                       UpdateTotalBytes = 4, UpdateProgress = 50\<rparr>],
      totalUploads = 0, totalDownloads = 0, bytesUploaded = 0, bytesDownloaded = 0\<rparr>"


section \<open>Properties of the reputation engine\<close>


lemma UpdateReputation_score:
  "ReputationScore (UpdateReputation s d) = max 0 (min 10 (ReputationScore s + d))"
  by (simp add: UpdateReputation_def checkLeecherStatus_def models_MaxReputation_def Let_def)

lemma UpdateReputation_in_range: "reputation_in_range (UpdateReputation s d)"
  by (simp add: reputation_in_range_def UpdateReputation_score)

lemma applyEvent_registry:
  "peerRegistry (applyEvent rs e) pid =
     (if StudentID e = pid
      then map_option (\<lambda>s. UpdateReputation s (Delta e)) (peerRegistry rs pid)
      else peerRegistry rs pid)"
  by (simp add: applyEvent_def PeerRegistry_Get_def split: option.split)

lemma applyEvent_keeps_range:
  assumes "peerRegistry rs pid = Some s" and "reputation_in_range s"
  shows "\<exists>s'. peerRegistry (applyEvent rs e) pid = Some s' \<and> reputation_in_range s'"
  using assms by (simp add: applyEvent_registry UpdateReputation_in_range)

lemma foldl_applyEvent_keeps_range:
  assumes "peerRegistry rs pid = Some s" and "reputation_in_range s"
  shows "\<exists>s'. peerRegistry (foldl applyEvent rs evs) pid = Some s' \<and> reputation_in_range s'"
  using assms
proof (induction evs arbitrary: rs s)
  case Nil
  then show ?case by simp
next
  case (Cons e evs)
  from applyEvent_keeps_range[OF Cons.prems, of e]
  obtain s1 where "peerRegistry (applyEvent rs e) pid = Some s1" "reputation_in_range s1"
    by blast
  from Cons.IH[OF this] show ?case by simp
qed

text \<open>The two producers of event sequences keep the bound as well.\<close>

lemma processEvents_keeps_range:
  assumes "peerRegistry rs pid = Some s" and "reputation_in_range s"
  shows "\<exists>s'. peerRegistry (processEvents rs) pid = Some s' \<and> reputation_in_range s'"
  unfolding processEvents_def
  by (rule foldl_applyEvent_keeps_range[where s = s]) (use assms in simp_all)

lemma applyInactivityDecay_keeps_range:
  assumes "peerRegistry rs pid = Some s" and "reputation_in_range s"
  shows "\<exists>s'. peerRegistry (applyInactivityDecay rs ids now) pid = Some s'
               \<and> reputation_in_range s'"
  using assms
proof (induction ids arbitrary: rs s)
  case Nil
  then show ?case by (simp add: applyInactivityDecay_def)
next
  case (Cons i ids)
  let ?step = "\<lambda>rs' sid.
              case peerRegistry rs' sid of
                None \<Rightarrow> rs'
              | Some peer \<Rightarrow>
                  if now - LastSeen peer > inactiveThreshold then
                    applyEvent rs' \<lparr>Type = EventInactivity, StudentID = ID peer,
                                   Delta = - InactivityDecay,
                                   Reason = ''Extended inactivity'', Timestamp = now\<rparr>
                  else rs'"
  have "\<exists>s1. peerRegistry (?step rs i) pid = Some s1 \<and> reputation_in_range s1"
    using Cons.prems applyEvent_keeps_range[OF Cons.prems]
    by (auto split: option.split)
  then obtain s1 where s1: "peerRegistry (?step rs i) pid = Some s1" "reputation_in_range s1"
    by blast
  from Cons.IH[OF s1] show ?case
    by (simp add: applyInactivityDecay_def)
qed

text \<open>
  Claim C1. A registered peer whose stored score lies in \<open>[0, 10]\<close> keeps a stored score
  in \<open>[0, 10]\<close> after every prefix of every sequence of events applied by \<open>applyEvent\<close>,
  whatever the events' types, targets and deltas; and a single \<open>UpdateReputation\<close> lands
  in \<open>[0, 10]\<close> from any stored score and any delta.
\<close>

theorem reputation_stays_in_range:
  assumes "peerRegistry rs pid = Some s" and "reputation_in_range s"
  shows "(\<forall>n\<le>length evs.
            \<exists>s'. peerRegistry (foldl applyEvent rs (take n evs)) pid = Some s'
                  \<and> reputation_in_range s')
         \<and> reputation_in_range (UpdateReputation s0 d)"
  using foldl_applyEvent_keeps_range[OF assms] UpdateReputation_in_range by blast

theorem reputation_stays_in_range_witness:
  "peerRegistry
     (NewReputationService
        (Register NewPeerRegistry (NewStudent ''p1'' ''Ann'' ''10.0.0.1'' 9000 0))) ''p1''
      = Some (NewStudent ''p1'' ''Ann'' ''10.0.0.1'' 9000 0)
   \<and> reputation_in_range (NewStudent ''p1'' ''Ann'' ''10.0.0.1'' 9000 0)
   \<and> (\<exists>s'. peerRegistry
          (foldl applyEvent
             (NewReputationService
                (Register NewPeerRegistry (NewStudent ''p1'' ''Ann'' ''10.0.0.1'' 9000 0)))
             [\<lparr>Type = EventUpload, StudentID = ''p1'', Delta = 1000,
               Reason = ''Shared a file'', Timestamp = 1\<rparr>,
              \<lparr>Type = EventLeeching, StudentID = ''p1'', Delta = - 5000,
               Reason = ''Detected as leecher'', Timestamp = 2\<rparr>])
          ''p1'' = Some s' \<and> reputation_in_range s')
   \<and> reputation_in_range
        (UpdateReputation (NewStudent ''p1'' ''Ann'' ''10.0.0.1'' 9000 0) (- 5000))"
proof -
  let ?s = "NewStudent ''p1'' ''Ann'' ''10.0.0.1'' 9000 0"
  let ?rs = "NewReputationService (Register NewPeerRegistry ?s)"
  let ?evs = "[\<lparr>Type = EventUpload, StudentID = ''p1'', Delta = 1000,
                 Reason = ''Shared a file'', Timestamp = 1\<rparr>,
               \<lparr>Type = EventLeeching, StudentID = ''p1'', Delta = - 5000,
                 Reason = ''Detected as leecher'', Timestamp = 2\<rparr>]"
  have h1: "peerRegistry ?rs ''p1'' = Some ?s"
    by (simp add: NewReputationService_def Register_def NewPeerRegistry_def NewStudent_def)
  have h2: "reputation_in_range ?s"
    by (simp add: reputation_in_range_def NewStudent_def models_DefaultReputation_def)
  note inst = reputation_stays_in_range[OF h1 h2, of ?evs ?s "- 5000"]
  have "\<exists>s'. peerRegistry (foldl applyEvent ?rs ?evs) ''p1'' = Some s' \<and> reputation_in_range s'"
    using inst[THEN conjunct1, THEN spec, of 2] by simp
  then show ?thesis
    using h1 h2 inst[THEN conjunct2] by simp
qed


lemma CalculateReputation_spec: "CalculateReputation s = spec_effective_score s"
  by (simp add: CalculateReputation_def spec_effective_score_def Let_def
      analytics_MinReputation_def analytics_MaxReputation_def)

lemma fmt_threshold: "fmt_1f 3 = ''3.0''"
  by (simp add: fmt_1f_def round_half_even_def Let_def digit_def)

text \<open>
  The reason of a denial does not hold the gap between the score and the threshold. For a
  peer with score 2.0 the gap is 1, and the digit 1 does not occur in the reason; for a
  peer with score 2.96 the reason reads \<open>3.0 < 3.0\<close>.
\<close>

theorem CanDownload_reason_counterexample:
  "ReputationService_CanDownload
     (NewReputationService (Register NewPeerRegistry
        ((NewStudent ''p1'' ''Ann'' ''10.0.0.1'' 9000 0)\<lparr>ReputationScore := 2.0\<rparr>))) ''p1''
     = (False, ''Insufficient reputation (2.0 < 3.0)'')
   \<and> DownloadThreshold
       - CalculateReputation ((NewStudent ''p1'' ''Ann'' ''10.0.0.1'' 9000 0)\<lparr>ReputationScore := 2.0\<rparr>)
     = 1
   \<and> CHR ''1'' \<notin> set ''Insufficient reputation (2.0 < 3.0)''
   \<and> ReputationService_CanDownload
     (NewReputationService (Register NewPeerRegistry
        ((NewStudent ''p1'' ''Ann'' ''10.0.0.1'' 9000 0)\<lparr>ReputationScore := 2.96\<rparr>))) ''p1''
     = (False, ''Insufficient reputation (3.0 < 3.0)'')"
proof -
  let ?s = "NewStudent ''p1'' ''Ann'' ''10.0.0.1'' 9000 0"
  have calc: "CalculateReputation (?s\<lparr>ReputationScore := x\<rparr>) = x"
    if "0 \<le> x" and "x \<le> 10" for x
    using that by (simp add: CalculateReputation_def NewStudent_def Let_def
        analytics_MinReputation_def analytics_MaxReputation_def)
  have fmt: "fmt_1f 2 = ''2.0''" "fmt_1f (74 / 25) = ''3.0''" "fmt_1f 3 = ''3.0''"
    by (simp_all add: fmt_1f_def round_half_even_def Let_def digit_def)
  have reg: "peerRegistry (NewReputationService (Register NewPeerRegistry (?s\<lparr>ReputationScore := x\<rparr>))) ''p1''
               = Some (?s\<lparr>ReputationScore := x\<rparr>)" for x
    by (simp add: NewReputationService_def Register_def NewPeerRegistry_def NewStudent_def)
  have a: "ReputationService_CanDownload
     (NewReputationService (Register NewPeerRegistry (?s\<lparr>ReputationScore := 2.0\<rparr>))) ''p1''
     = (False, ''Insufficient reputation (2.0 < 3.0)'')"
    unfolding ReputationService_CanDownload_def PeerRegistry_Get_def reg Let_def
    by (simp add: calc fmt DownloadThreshold_def)
  have b: "ReputationService_CanDownload
     (NewReputationService (Register NewPeerRegistry (?s\<lparr>ReputationScore := 2.96\<rparr>))) ''p1''
     = (False, ''Insufficient reputation (3.0 < 3.0)'')"
    unfolding ReputationService_CanDownload_def PeerRegistry_Get_def reg Let_def
    by (simp add: calc fmt DownloadThreshold_def)
  have c: "DownloadThreshold - CalculateReputation (?s\<lparr>ReputationScore := 2.0\<rparr>) = 1"
    by (simp add: calc DownloadThreshold_def)
  have d: "CHR ''1'' \<notin> set ''Insufficient reputation (2.0 < 3.0)''" by simp
  show ?thesis using a b c d by blast
qed

text \<open>
  Claim C2, as the code has it. For a registered peer \<open>CanDownload\<close> allows exactly when
  the effective score is at least 3.0; a denial carries the reason
  \<open>Insufficient reputation (S < 3.0)\<close>, where \<open>S\<close> is the effective score to one
  decimal: the reason shows the score and the threshold, not the gap between them. An
  unknown id is denied with \<open>Student not found\<close>. The effective score is the one the
  specification describes.
\<close>

theorem CanDownload_threshold:
  "(peerRegistry rs sid = None \<longrightarrow>
      ReputationService_CanDownload rs sid = (False, ''Student not found''))
   \<and> (peerRegistry rs sid = Some s \<longrightarrow>
        ReputationService_CanDownload rs sid =
          (if 3.0 \<le> CalculateReputation s then (True, ''Allowed'')
           else (False, ''Insufficient reputation ('' @ fmt_1f (CalculateReputation s)
                        @ '' < 3.0)'')))
   \<and> CalculateReputation s = spec_effective_score s"
  by (simp add: ReputationService_CanDownload_def PeerRegistry_Get_def Let_def fmt_threshold
      CalculateReputation_spec DownloadThreshold_def not_less)

theorem CanDownload_threshold_witness:
  "ReputationService_CanDownload
     (NewReputationService (Register NewPeerRegistry
        ((NewStudent ''p1'' ''Ann'' ''10.0.0.1'' 9000 0)\<lparr>ReputationScore := 2.9\<rparr>))) ''p1''
     = (False, ''Insufficient reputation (2.9 < 3.0)'')
   \<and> ReputationService_CanDownload
     (NewReputationService (Register NewPeerRegistry
        ((NewStudent ''p1'' ''Ann'' ''10.0.0.1'' 9000 0)\<lparr>ReputationScore := 3.0\<rparr>))) ''p1''
     = (True, ''Allowed'')
   \<and> ReputationService_CanDownload
     (NewReputationService (Register NewPeerRegistry
        ((NewStudent ''p1'' ''Ann'' ''10.0.0.1'' 9000 0)\<lparr>ReputationScore := 3.1\<rparr>))) ''p1''
     = (True, ''Allowed'')
   \<and> ReputationService_CanDownload
     (NewReputationService (Register NewPeerRegistry
        ((NewStudent ''p1'' ''Ann'' ''10.0.0.1'' 9000 0)\<lparr>ReputationScore := 3.9, TotalDownloads := 4, TotalUploads := 1\<rparr>))) ''p1''
     = (False, ''Insufficient reputation (2.9 < 3.0)'')
   \<and> ReputationService_CanDownload
     (NewReputationService (Register NewPeerRegistry
        ((NewStudent ''p1'' ''Ann'' ''10.0.0.1'' 9000 0)\<lparr>ReputationScore := 2.9\<rparr>))) ''p2''
     = (False, ''Student not found'')"
proof -
  let ?s = "NewStudent ''p1'' ''Ann'' ''10.0.0.1'' 9000 0"
  let ?rs = "\<lambda>s. NewReputationService (Register NewPeerRegistry s)"
  have reg: "peerRegistry (?rs s) ''p1'' = Some s \<and> peerRegistry (?rs s) ''p2'' = None"
    if "ID s = ''p1''" for s
    using that by (simp add: NewReputationService_def Register_def NewPeerRegistry_def)
  have id: "ID (?s\<lparr>ReputationScore := x\<rparr>) = ''p1''"
        "ID (?s\<lparr>ReputationScore := x, TotalDownloads := y, TotalUploads := z\<rparr>) = ''p1''" for x y z
    by (simp_all add: NewStudent_def)
  have fmt: "fmt_1f 2.9 = ''2.9''"
    by (simp add: fmt_1f_def round_half_even_def Let_def digit_def)
  have calc: "CalculateReputation (?s\<lparr>ReputationScore := 2.9\<rparr>) = 2.9"
     "CalculateReputation (?s\<lparr>ReputationScore := 3.0\<rparr>) = 3.0"
     "CalculateReputation (?s\<lparr>ReputationScore := 3.1\<rparr>) = 3.1"
     "CalculateReputation (?s\<lparr>ReputationScore := 3.9, TotalDownloads := 4, TotalUploads := 1\<rparr>) = 2.9"
    by (simp_all add: CalculateReputation_def NewStudent_def Let_def
        analytics_MinReputation_def analytics_MaxReputation_def)
  show ?thesis
    using CanDownload_threshold[of "?rs (?s\<lparr>ReputationScore := 2.9\<rparr>)" "''p1''" "?s\<lparr>ReputationScore := 2.9\<rparr>"]
      CanDownload_threshold[of "?rs (?s\<lparr>ReputationScore := 3.0\<rparr>)" "''p1''" "?s\<lparr>ReputationScore := 3.0\<rparr>"]
      CanDownload_threshold[of "?rs (?s\<lparr>ReputationScore := 3.1\<rparr>)" "''p1''" "?s\<lparr>ReputationScore := 3.1\<rparr>"]
      CanDownload_threshold[of "?rs (?s\<lparr>ReputationScore := 3.9, TotalDownloads := 4, TotalUploads := 1\<rparr>)" "''p1''"
          "?s\<lparr>ReputationScore := 3.9, TotalDownloads := 4, TotalUploads := 1\<rparr>"]
      CanDownload_threshold[of "?rs (?s\<lparr>ReputationScore := 2.9\<rparr>)" "''p2''" "?s"]
      reg[OF id(1)] reg[OF id(2)]
    by (simp only: calc fmt) simp
qed


section \<open>Properties of the leecher flag and of new peers\<close>

lemma ratio_gt_three:
  assumes "0 < u"
  shows "(real_of_int d / real_of_int u > 3) = (d > 3 * u)"
proof -
  have "(real_of_int d / real_of_int u > 3) = (real_of_int d > 3 * real_of_int u)"
    using assms by (simp add: field_simps)
  also have "\<dots> = (real_of_int d > real_of_int (3 * u))" by simp
  also have "\<dots> = (d > 3 * u)" by (simp only: of_int_less_iff)
  finally show ?thesis .
qed

lemma checkLeecherStatus_IsLeecher:
  "IsLeecher (checkLeecherStatus s) =
     (if TotalDownloads s > 0 \<and> TotalUploads s > 0 then TotalDownloads s > 3 * TotalUploads s
      else if TotalDownloads s > 5 \<and> TotalUploads s = 0 then True
      else IsLeecher s)"
  by (simp add: checkLeecherStatus_def Let_def ratio_gt_three)

theorem leecher_flag_counterexample:
  "TotalDownloads (Student_RecordDownload (NewStudent ''p1'' ''Ann'' ''10.0.0.1'' 9000 0) 1)
      > 3 * TotalUploads (Student_RecordDownload (NewStudent ''p1'' ''Ann'' ''10.0.0.1'' 9000 0) 1)
   \<and> \<not> IsLeecher (Student_RecordDownload (NewStudent ''p1'' ''Ann'' ''10.0.0.1'' 9000 0) 1)"
  by (simp add: Student_RecordDownload_def NewStudent_def checkLeecherStatus_def)

text \<open>
  Claim C9, as the code has it. \<open>checkLeecherStatus\<close> leaves the flag as it was when both
  counters are zero (so a new peer is not flagged); it sets the flag when the peer has
  uploaded something and its downloads exceed three times its uploads, and when the peer
  has uploaded nothing and has more than five downloads; with no uploads and at most five
  downloads the flag is left as it was. The claim as stated fails for a peer with one
  download and no upload.
\<close>

theorem leecher_flag:
  "(TotalDownloads s = 0 \<and> TotalUploads s = 0 \<longrightarrow>
      IsLeecher (checkLeecherStatus s) = IsLeecher s)
   \<and> \<not> IsLeecher (checkLeecherStatus (NewStudent sid name ip port now))
   \<and> (0 < TotalUploads s \<and> TotalDownloads s > 3 * TotalUploads s \<longrightarrow>
        IsLeecher (checkLeecherStatus s))
   \<and> (TotalUploads s = 0 \<and> TotalDownloads s > 5 \<longrightarrow> IsLeecher (checkLeecherStatus s))
   \<and> (TotalUploads s = 0 \<and> TotalDownloads s \<le> 5 \<longrightarrow>
        IsLeecher (checkLeecherStatus s) = IsLeecher s)"
  by (auto simp add: checkLeecherStatus_IsLeecher NewStudent_def)

theorem leecher_flag_witness:
  "IsLeecher (checkLeecherStatus
      ((NewStudent ''p1'' ''Ann'' ''10.0.0.1'' 9000 0)\<lparr>TotalUploads := 2, TotalDownloads := 7\<rparr>))
   \<and> IsLeecher (checkLeecherStatus
      ((NewStudent ''p1'' ''Ann'' ''10.0.0.1'' 9000 0)\<lparr>TotalUploads := 0, TotalDownloads := 6\<rparr>))
   \<and> \<not> IsLeecher (checkLeecherStatus
      ((NewStudent ''p1'' ''Ann'' ''10.0.0.1'' 9000 0)\<lparr>TotalUploads := 0, TotalDownloads := 5\<rparr>))
   \<and> \<not> IsLeecher (checkLeecherStatus
      ((NewStudent ''p1'' ''Ann'' ''10.0.0.1'' 9000 0)\<lparr>TotalUploads := 0, TotalDownloads := 0\<rparr>))"
  using leecher_flag[of "(NewStudent ''p1'' ''Ann'' ''10.0.0.1'' 9000 0)\<lparr>TotalUploads := 2, TotalDownloads := 7\<rparr>"]
    leecher_flag[of "(NewStudent ''p1'' ''Ann'' ''10.0.0.1'' 9000 0)\<lparr>TotalUploads := 0, TotalDownloads := 6\<rparr>"]
    leecher_flag[of "(NewStudent ''p1'' ''Ann'' ''10.0.0.1'' 9000 0)\<lparr>TotalUploads := 0, TotalDownloads := 5\<rparr>"]
    leecher_flag[of "(NewStudent ''p1'' ''Ann'' ''10.0.0.1'' 9000 0)\<lparr>TotalUploads := 0, TotalDownloads := 0\<rparr>"]
  by (simp add: NewStudent_def)

text \<open>
  Claim C10. A peer made by \<open>NewStudent\<close> has score 5.0, is online, is not a leecher and
  has both counters at zero; its effective score is 5.0, and it passes both download
  gates, the one of \<open>Student\<close> and, once registered, the one of the reputation service.
\<close>

theorem new_peer_defaults:
  "ReputationScore (NewStudent sid name ip port now) = 5.0
   \<and> IsOnline (NewStudent sid name ip port now)
   \<and> \<not> IsLeecher (NewStudent sid name ip port now)
   \<and> TotalUploads (NewStudent sid name ip port now) = 0
   \<and> TotalDownloads (NewStudent sid name ip port now) = 0
   \<and> CalculateReputation (NewStudent sid name ip port now) = 5.0
   \<and> Student_CanDownload (NewStudent sid name ip port now)
   \<and> ReputationService_CanDownload
        (rs\<lparr>peerRegistry := Register (peerRegistry rs) (NewStudent sid name ip port now)\<rparr>) sid
       = (True, ''Allowed'')"
  by (simp add: NewStudent_def models_DefaultReputation_def CalculateReputation_def Let_def
      analytics_MinReputation_def analytics_MaxReputation_def Student_CanDownload_def
      models_MinReputation_def ReputationService_CanDownload_def PeerRegistry_Get_def
      Register_def DownloadThreshold_def)


section \<open>Properties of the file index\<close>

text \<open>
  Claim C4 fails on the code: \<open>containsIgnoreCase\<close> compares lengths and never looks
  for the query inside the field. A file named \<open>notes\<close> is not found by the query
  \<open>NOTES\<close>, which its name contains up to letter case, and it is found by the query
  \<open>z\<close>, which none of its fields contains. \<open>spec_Search\<close> is the search the claim
  describes.
\<close>

theorem Search_is_not_substring_match:
  "Search (FileIndex_Add NewFileIndex (NewAcademicFile sha256 ''notes'' ''A'' 5 ''.txt'' c 0)) ''NOTES'' = []
   \<and> spec_Search (FileIndex_Add NewFileIndex (NewAcademicFile sha256 ''notes'' ''A'' 5 ''.txt'' c 0)) ''NOTES''
       = [NewAcademicFile sha256 ''notes'' ''A'' 5 ''.txt'' c 0]
   \<and> Search (FileIndex_Add NewFileIndex (NewAcademicFile sha256 ''notes'' ''A'' 5 ''.txt'' c 0)) ''z''
       = [NewAcademicFile sha256 ''notes'' ''A'' 5 ''.txt'' c 0]
   \<and> spec_Search (FileIndex_Add NewFileIndex (NewAcademicFile sha256 ''notes'' ''A'' 5 ''.txt'' c 0)) ''z'' = []"
  by (simp add: Search_def spec_Search_def FileIndex_Add_def NewFileIndex_def NewAcademicFile_def
      containsIgnoreCase_def spec_contains_ignore_case_def spec_contains_def ascii_lower_def Let_def)

lemma AddPeerLocation_set:
  "set (PeerLocations (AddPeerLocation f p)) = insert p (set (PeerLocations f))"
  by (auto simp: AddPeerLocation_def)

lemma RemovePeerLocation_set:
  "set (PeerLocations (RemovePeerLocation f p)) = set (PeerLocations f) - {p}"
  by (auto simp: RemovePeerLocation_def Let_def)

lemma AddPeerLocation_idem: "AddPeerLocation (AddPeerLocation f p) p = AddPeerLocation f p"
  by (simp add: AddPeerLocation_def)

lemma RemovePeerLocation_idem:
  "RemovePeerLocation (RemovePeerLocation f p) p = RemovePeerLocation f p"
  by (simp add: RemovePeerLocation_def Let_def)

lemma RemovePeerLocation_available:
  "IsAvailable (RemovePeerLocation f p) = (PeerLocations (RemovePeerLocation f p) \<noteq> [])"
  by (simp add: RemovePeerLocation_def Let_def)

lemma AddPeerLocation_available: "IsAvailable (AddPeerLocation f p) = IsAvailable f"
  by (simp add: AddPeerLocation_def)

text \<open>
  One half of the availability invariant does hold along every sequence of calls: a file
  marked available has a location.
\<close>

lemma location_call_available:
  assumes "IsAvailable f \<longrightarrow> PeerLocations f \<noteq> []"
  shows "IsAvailable (call_location f c) \<longrightarrow> PeerLocations (call_location f c) \<noteq> []"
  using assms by (cases c) (auto simp: AddPeerLocation_def RemovePeerLocation_def Let_def)

lemma location_calls_available:
  assumes "IsAvailable f \<longrightarrow> PeerLocations f \<noteq> []"
  shows "IsAvailable (foldl call_location f cs) \<longrightarrow> PeerLocations (foldl call_location f cs) \<noteq> []"
  using assms
proof (induction cs arbitrary: f)
  case Nil
  then show ?case by simp
next
  case (Cons c cs)
  from Cons.IH[OF location_call_available[OF Cons.prems]] show ?case by simp
qed

text \<open>
  Claim C5 fails on the code: \<open>RemovePeerLocation\<close> recomputes \<open>IsAvailable\<close>, but
  \<open>AddPeerLocation\<close> never touches it. After the only location of a new file is
  removed and another peer is added, the location list is not empty and the file is
  still marked unavailable.
\<close>

theorem AddPeerLocation_misses_availability:
  "PeerLocations (AddPeerLocation (RemovePeerLocation
      (NewAcademicFile sha256 ''notes.pdf'' ''A'' 3 ''.pdf'' c 0) ''A'') ''B'') = [''B'']
   \<and> \<not> IsAvailable (AddPeerLocation (RemovePeerLocation
      (NewAcademicFile sha256 ''notes.pdf'' ''A'' 3 ''.pdf'' c 0) ''A'') ''B'')"
  by (simp add: AddPeerLocation_def RemovePeerLocation_def NewAcademicFile_def Let_def)

lemma NewAcademicFile_CID: "CID (NewAcademicFile sha256 n a s t c now) = models_GenerateCID sha256 c"
  by (simp add: NewAcademicFile_def Let_def)

lemma count_update:
  assumes "distinct (map fst al)"
  shows "length (filter (\<lambda>(k', v'). k' = k) (AList.update k v al)) = 1"
  using assms
proof (induction al)
  case Nil
  then show ?case by simp
next
  case (Cons p al)
  obtain k0 v0 where p: "p = (k0, v0)" by (cases p)
  show ?case
  proof (cases "k0 = k")
    case True
    with Cons.prems p have "k \<notin> fst ` set al" by simp
    then have "filter (\<lambda>(k', v'). k' = k) al = []"
      by (force simp: filter_empty_conv)
    with True p show ?thesis by simp
  next
    case False
    with Cons p show ?thesis by simp
  qed
qed

text \<open>
  Claim C6, as the code has it. Equal bytes give equal CIDs. After two uploads of the
  same bytes (two \<open>NewAcademicFile\<close> records, each put in the index by \<open>Add\<close>) the
  index holds exactly one record under that CID, and it is the record of the second
  upload, whose location list is the second owner alone: \<open>Add\<close> overwrites, it does
  not merge the locations.
\<close>

theorem duplicate_upload_overwrites:
  assumes "distinct (map fst fi)"
  shows "CID (NewAcademicFile sha256 n1 a s1 t1 c now1) = models_GenerateCID sha256 c
     \<and> CID (NewAcademicFile sha256 n2 b s2 t2 c now2) = models_GenerateCID sha256 c
     \<and> FileIndex_Get
          (FileIndex_Add (FileIndex_Add fi (NewAcademicFile sha256 n1 a s1 t1 c now1))
                         (NewAcademicFile sha256 n2 b s2 t2 c now2))
          (models_GenerateCID sha256 c)
        = Some (NewAcademicFile sha256 n2 b s2 t2 c now2)
     \<and> PeerLocations (NewAcademicFile sha256 n2 b s2 t2 c now2) = [b]
     \<and> length (filter (\<lambda>(k, f). k = models_GenerateCID sha256 c)
          (FileIndex_Add (FileIndex_Add fi (NewAcademicFile sha256 n1 a s1 t1 c now1))
                         (NewAcademicFile sha256 n2 b s2 t2 c now2))) = 1"
proof -
  have d: "distinct (map fst (FileIndex_Add fi (NewAcademicFile sha256 n1 a s1 t1 c now1)))"
    using assms by (simp add: FileIndex_Add_def distinct_update)
  show ?thesis
    using count_update[OF d, of "models_GenerateCID sha256 c" "NewAcademicFile sha256 n2 b s2 t2 c now2"]
    by (simp add: FileIndex_Add_def FileIndex_Get_def NewAcademicFile_CID update_conv')
       (simp add: NewAcademicFile_def Let_def)
qed

text \<open>
  The concrete runs below take the digest that returns the content itself (\<open>id\<close>); by
  the theorem the outcome is the same for every digest.
\<close>

theorem duplicate_upload_counterexample:
  "map_option PeerLocations
     (FileIndex_Get
        (FileIndex_Add (FileIndex_Add NewFileIndex
            (NewAcademicFile id ''notes.pdf'' ''A'' 3 ''.pdf'' [1, 2, 3] 0))
            (NewAcademicFile id ''notes.pdf'' ''B'' 3 ''.pdf'' [1, 2, 3] 1))
        (models_GenerateCID id [1, 2, 3]))
   = Some [''B'']"
  by (simp add: FileIndex_Add_def FileIndex_Get_def NewFileIndex_def NewAcademicFile_def Let_def)

theorem duplicate_upload_overwrites_witness:
  "distinct (map fst NewFileIndex)
   \<and> FileIndex_Get
        (FileIndex_Add (FileIndex_Add NewFileIndex
            (NewAcademicFile id ''notes.pdf'' ''A'' 3 ''.pdf'' [1, 2, 3] 0))
            (NewAcademicFile id ''notes.pdf'' ''B'' 3 ''.pdf'' [1, 2, 3] 1))
        (models_GenerateCID id [1, 2, 3])
      = Some (NewAcademicFile id ''notes.pdf'' ''B'' 3 ''.pdf'' [1, 2, 3] 1)
   \<and> PeerLocations (NewAcademicFile id ''notes.pdf'' ''B'' 3 ''.pdf'' [1, 2, 3] 1) = [''B'']
   \<and> FileIndex_Count
        (FileIndex_Add (FileIndex_Add NewFileIndex
            (NewAcademicFile id ''notes.pdf'' ''A'' 3 ''.pdf'' [1, 2, 3] 0))
            (NewAcademicFile id ''notes.pdf'' ''B'' 3 ''.pdf'' [1, 2, 3] 1)) = 1"
proof -
  have h: "distinct (map fst NewFileIndex)" by (simp add: NewFileIndex_def)
  have cnt: "FileIndex_Count
        (FileIndex_Add (FileIndex_Add NewFileIndex
            (NewAcademicFile id ''notes.pdf'' ''A'' 3 ''.pdf'' [1, 2, 3] 0))
            (NewAcademicFile id ''notes.pdf'' ''B'' 3 ''.pdf'' [1, 2, 3] 1)) = 1"
    by (simp add: FileIndex_Count_def FileIndex_Add_def NewFileIndex_def NewAcademicFile_def Let_def)
  from duplicate_upload_overwrites[OF h, of id "''notes.pdf''" "''A''" 3 "''.pdf''" "[1, 2, 3]" 0
      "''notes.pdf''" "''B''" 3 "''.pdf''" 1] h cnt
  show ?thesis by simp
qed


section \<open>Properties of the throttler\<close>

lemma int64_id: "- (2 ^ 63) \<le> x \<Longrightarrow> x < 2 ^ 63 \<Longrightarrow> int64 x = x"
  by (simp add: int64_def)

lemma int64_add_left: "int64 (int64 x + y) = int64 (x + y)"
proof -
  have "(int64 x + y + 2 ^ 63) mod 2 ^ 64 = ((x + 2 ^ 63) mod 2 ^ 64 + y) mod 2 ^ 64"
    by (simp add: int64_def algebra_simps)
  also have "\<dots> = (x + 2 ^ 63 + y) mod 2 ^ 64"
    by (simp add: mod_add_left_eq)
  finally show ?thesis
    by (simp add: int64_def algebra_simps)
qed

lemma div_bounds:
  fixes x ts :: int
  assumes "0 < ts"
  shows "(x div ts) * ts \<le> x" and "x < (x div ts) * ts + ts"
proof -
  have "x = (x div ts) * ts + x mod ts" by simp
  moreover have "0 \<le> x mod ts" "x mod ts < ts" using assms by simp_all
  ultimately show "(x div ts) * ts \<le> x" and "x < (x div ts) * ts + ts" by linarith+
qed

lemma go_quot_nonneg:
  assumes "0 \<le> a" "0 < b" "a < 2 ^ 63"
  shows "go_quot a b = a div b"
proof -
  have q: "(if (a < 0) = (b < 0) then \<bar>a\<bar> div \<bar>b\<bar> else - (\<bar>a\<bar> div \<bar>b\<bar>)) = a div b"
    using assms by simp
  moreover have "0 \<le> a div b" using assms by (simp add: pos_imp_zdiv_nonneg_iff)
  moreover have "a div b \<le> a"
  proof -
    have "(a div b) * 1 \<le> (a div b) * b"
      using \<open>0 \<le> a div b\<close> assms(2) by (intro mult_left_mono) simp_all
    with div_bounds(1)[OF assms(2), of a] show ?thesis by simp
  qed
  ultimately have "int64 (a div b) = a div b"
    using assms by (intro int64_id) simp_all
  then show ?thesis
    unfolding go_quot_def q .
qed

lemma round_up_div:
  fixes b ts :: int
  assumes "0 < ts"
  shows "\<lceil>real_of_int b / real_of_int ts\<rceil> = (b + ts - 1) div ts"
proof (rule ceiling_unique)
  let ?z = "(b + ts - 1) div ts"
  note bnd = div_bounds[OF assms, of "b + ts - 1"]
  have lo: "(?z - 1) * ts < b" using bnd(1) by (simp add: algebra_simps)
  have hi: "b \<le> ?z * ts" using bnd(2) by simp
  have ts: "0 < real_of_int ts" using assms by simp
  have "real_of_int ((?z - 1) * ts) < real_of_int b" using lo by (simp only: of_int_less_iff)
  then show "real_of_int ?z - 1 < real_of_int b / real_of_int ts"
    using ts by (simp add: pos_less_divide_eq)
  have "real_of_int b \<le> real_of_int (?z * ts)" using hi by (simp only: of_int_le_iff)
  then show "real_of_int b / real_of_int ts \<le> real_of_int ?z"
    using ts by (simp add: pos_divide_le_eq)
qed

lemma tokensNeeded_eq:
  assumes "0 < ts" "0 < b" "b + ts - 1 < 2 ^ 63"
  shows "go_quot (int64 (int64 (b + ts) - 1)) ts = \<lceil>real_of_int b / real_of_int ts\<rceil>"
proof -
  have "int64 (int64 (b + ts) - 1) = int64 (b + ts - 1)"
    using int64_add_left[of "b + ts" "- 1"] by simp
  also have "\<dots> = b + ts - 1"
    using assms by (intro int64_id) simp_all
  finally show ?thesis
    using assms by (simp add: go_quot_nonneg round_up_div)
qed

text \<open>
  Every throttler the package makes has a positive token size: \<open>NewThrottler\<close> sets one,
  and \<open>UpdateReputation\<close> and the refill keep it.
\<close>

lemma GetBandwidth_tokenSize: "0 < go_quot (GetBandwidth tr) TokenBucketSize"
  by (cases tr)
     (simp_all add: go_quot_def int64_def TokenBucketSize_def LeecherBandwidth_def
        NormalBandwidth_def PremiumBandwidth_def)

lemma NewThrottler_tokenSize: "0 < tokenSize (NewThrottler pid r)"
  by (simp add: NewThrottler_def Let_def GetBandwidth_tokenSize)

lemma NewThrottler_tokens: "tokens (NewThrottler pid r) = 10"
  by (simp add: NewThrottler_def Let_def TokenBucketSize_def)

lemma UpdateReputation_tokenSize:
  "0 < tokenSize t \<Longrightarrow> 0 < tokenSize (Throttler_UpdateReputation t r)"
  by (simp add: Throttler_UpdateReputation_def Let_def GetBandwidth_tokenSize)

lemma refill_tokenSize: "tokenSize (refill t) = tokenSize t"
  by (simp add: refill_def Let_def)

text \<open>
  Claim C7, as the code has it. Let the throttler have a positive token size (as
  \<open>NewThrottler\<close> and \<open>UpdateReputation\<close> set it) and let the request be for \<open>b > 0\<close>
  bytes with \<open>b + token_size - 1\<close> inside \<open>int64\<close>: that sum is what \<open>Acquire\<close>
  forms to round up. If \<open>ceil(b / token_size)\<close> tokens are in the bucket, \<open>Acquire\<close>
  takes exactly that many, grants \<open>b\<close> bytes, and \<open>b\<close> is within what the balance
  stands for. If fewer tokens, but at least one, are in the bucket, it grants exactly
  \<open>tokens * token_size\<close> bytes, which is less than \<open>b\<close>, and empties the bucket. In
  both cases it returns at once, whatever the refill goroutine does (\<open>ticks\<close> is
  arbitrary). Without the bound on \<open>b\<close> the claim fails: for a request of
  \<open>2^63 - 1\<close> bytes the sum wraps around, and a bucket of ten tokens grants it in full.
\<close>

theorem Acquire_grant:
  assumes "0 < tokenSize t" and "0 < b" and "b + tokenSize t - 1 < 2 ^ 63"
    and "tokens t < 2 ^ 63"
  shows "(\<lceil>real_of_int b / real_of_int (tokenSize t)\<rceil> \<le> tokens t \<longrightarrow>
            Acquire t b ticks =
              Granted b (t\<lparr>tokens := tokens t - \<lceil>real_of_int b / real_of_int (tokenSize t)\<rceil>\<rparr>)
            \<and> b \<le> tokens t * tokenSize t)
       \<and> (0 < tokens t \<and> tokens t < \<lceil>real_of_int b / real_of_int (tokenSize t)\<rceil> \<longrightarrow>
            Acquire t b ticks = Granted (tokens t * tokenSize t) (t\<lparr>tokens := 0\<rparr>)
            \<and> tokens t * tokenSize t < b)"
proof -
  define ts where "ts = tokenSize t"
  define need where "need = \<lceil>real_of_int b / real_of_int ts\<rceil>"
  have ts: "0 < ts" using assms(1) by (simp add: ts_def)
  have need_div: "need = (b + ts - 1) div ts"
    unfolding need_def using ts by (rule round_up_div)
  have "go_quot (int64 (int64 (b + ts) - 1)) ts = need"
    unfolding need_def using ts assms(2) assms(3)[folded ts_def] by (rule tokensNeeded_eq)
  then have loop: "Acquire t b tk = Acquire_loop t b need tk" for tk
    using ts by (simp add: Acquire_def ts_def)
  note bnd = div_bounds[OF ts, of "b + ts - 1"]
  have need_pos: "0 < need"
    unfolding need_div using ts assms(2) by (simp add: pos_imp_zdiv_pos_iff)
  have cover: "b \<le> need * ts" using bnd(2) by (simp add: need_div)
  have short: "(need - 1) * ts < b" using bnd(1) by (simp add: need_div algebra_simps)
  have full: "Acquire t b ticks = Granted b (t\<lparr>tokens := tokens t - need\<rparr>) \<and> b \<le> tokens t * ts"
    if "need \<le> tokens t"
  proof -
    have "- (2 ^ 63) \<le> tokens t - need" "tokens t - need < 2 ^ 63"
      using that need_pos assms(4) by linarith+
    then have "int64 (tokens t - need) = tokens t - need"
      by (rule int64_id)
    moreover have "need * ts \<le> tokens t * ts"
      using that ts by (intro mult_right_mono) simp_all
    ultimately show ?thesis
      using that cover by (cases ticks) (simp_all add: loop)
  qed
  have part: "Acquire t b ticks = Granted (tokens t * ts) (t\<lparr>tokens := 0\<rparr>) \<and> tokens t * ts < b"
    if "0 < tokens t" "tokens t < need"
  proof -
    have "tokens t * ts \<le> (need - 1) * ts"
      using that ts by (intro mult_right_mono) simp_all
    with short have lt: "tokens t * ts < b" by simp
    have "0 \<le> tokens t * ts" using that ts by simp
    with lt assms(3) ts have "- (2 ^ 63) \<le> tokens t * ts" "tokens t * ts < 2 ^ 63"
      unfolding ts_def by linarith+
    then have "int64 (tokens t * ts) = tokens t * ts"
      by (rule int64_id)
    with that lt show ?thesis
      by (cases ticks) (simp_all add: loop ts_def)
  qed
  from full part show ?thesis
    unfolding need_def ts_def by blast
qed

theorem Acquire_grant_witness:
  "0 < tokenSize (NewThrottler ''p1'' 5) \<and> (0::int) < 100000 \<and> (0::int) < 1000000
   \<and> 1000000 + tokenSize (NewThrottler ''p1'' 5) - 1 < 2 ^ 63
   \<and> tokens (NewThrottler ''p1'' 5) < 2 ^ 63
   \<and> \<lceil>real_of_int 100000 / real_of_int (tokenSize (NewThrottler ''p1'' 5))\<rceil> = 2
   \<and> Acquire (NewThrottler ''p1'' 5) 100000 [] = Granted 100000 ((NewThrottler ''p1'' 5)\<lparr>tokens := 8\<rparr>)
   \<and> \<lceil>real_of_int 1000000 / real_of_int (tokenSize (NewThrottler ''p1'' 5))\<rceil> = 20
   \<and> tokens (NewThrottler ''p1'' 5) = 10
   \<and> Acquire (NewThrottler ''p1'' 5) 1000000 [] = Granted 512000 ((NewThrottler ''p1'' 5)\<lparr>tokens := 0\<rparr>)"
proof -
  have nt: "NewThrottler ''p1'' 5 = \<lparr>peerID = ''p1'', tier = TierNormal, bandwidth = 512000,
      tokens = 10, maxTokens = 10, tokenSize = 51200, isRunning = False\<rparr>"
    by (simp add: NewThrottler_def determineTier_def LeecherThreshold_def PremiumThreshold_def
        NormalBandwidth_def TokenBucketSize_def go_quot_def int64_def Let_def)
  have h: "0 < tokenSize (NewThrottler ''p1'' 5)" "tokens (NewThrottler ''p1'' 5) < 2 ^ 63"
     "100000 + tokenSize (NewThrottler ''p1'' 5) - 1 < 2 ^ 63"
     "1000000 + tokenSize (NewThrottler ''p1'' 5) - 1 < 2 ^ 63"
    by (simp_all add: nt)
  have c: "\<lceil>real_of_int 100000 / real_of_int (tokenSize (NewThrottler ''p1'' 5))\<rceil> = 2"
      "\<lceil>real_of_int 1000000 / real_of_int (tokenSize (NewThrottler ''p1'' 5))\<rceil> = 20"
    by (simp_all add: nt)
  show ?thesis
    using Acquire_grant[OF h(1) _ h(3) h(2), of "[]"] Acquire_grant[OF h(1) _ h(4) h(2), of "[]"] h
    by (simp add: c) (simp add: nt)
qed

theorem Acquire_grant_counterexample:
  "tokens (NewThrottler ''p1'' 5) = 10
   \<and> tokenSize (NewThrottler ''p1'' 5) = 51200
   \<and> \<lceil>real_of_int 9223372036854775807 / real_of_int 51200\<rceil> = 180143985094820
   \<and> Acquire (NewThrottler ''p1'' 5) 9223372036854775807 []
       = Granted 9223372036854775807 ((NewThrottler ''p1'' 5)\<lparr>tokens := 180143985094828\<rparr>)"
  by (simp add: Acquire_def NewThrottler_def determineTier_def LeecherThreshold_def
      PremiumThreshold_def NormalBandwidth_def TokenBucketSize_def go_quot_def int64_def Let_def)

text \<open>With an empty bucket and no refill the call waits.\<close>

lemma Acquire_blocks_without_tokens:
  assumes "tokenSize t \<noteq> 0"
    and "tokens t \<le> 0" and "tokens t < go_quot (int64 (int64 (b + tokenSize t) - 1)) (tokenSize t)"
  shows "Acquire t b [] = Blocked t"
  using assms by (simp add: Acquire_def)

section \<open>Properties of the transfer manager\<close>

lemma with_transfer_Some:
  "transfers tm tid = Some t \<Longrightarrow>
   with_transfer tm tid f = tm\<lparr>transfers := (transfers tm)(tid \<mapsto> f t)\<rparr>"
  by (simp add: with_transfer_def)

lemma no_write_error_tl: "no_write_error ws \<Longrightarrow> no_write_error (tl ws)"
  by (cases ws) (simp_all add: no_write_error_def)

lemma send_progress_room:
  "length (progressChan tm) < ProgressChanCapacity \<Longrightarrow>
   send_progress tm u = Some (tm\<lparr>progressChan := progressChan tm @ [u]\<rparr>)"
  by (simp add: send_progress_def)



text \<open>
  Without room in the progress channel the reception does not come back: it waits in the
  send of the first update that does not fit.
\<close>

lemma receive_loop_waits:
  assumes "no_read_error conn" and "no_write_error write_errs"
    and "transfers tm tid = Some t"
    and "ProgressChanCapacity < length (progressChan tm) + chunks_received fileSize conn received"
    and "length (progressChan tm) \<le> ProgressChanCapacity"
  shows "\<exists>st. receive_loop savePath fileSize tid conn write_errs received (tm, fs) = Waiting st"
  using assms
proof (induction conn arbitrary: write_errs received tm fs t)
  case Nil
  then show ?case by simp
next
  case (Cons r conn)
  obtain data err where r: "r = (data, err)" by (cases r)
  from Cons.prems(1) r have rest: "no_read_error conn"
    by (simp_all add: no_read_error_def)
  have True: "received < fileSize \<and> err = None"
    using Cons.prems(4,5) r by (auto split: if_splits)
  let ?rec1 = "int64 (received + int (length data))"
  let ?progress = "real_of_int ?rec1 / real_of_int fileSize * 100"
  let ?t1 = "t\<lparr>SentBytes := ?rec1, Progress := ?progress\<rparr>"
  let ?tm1 = "tm\<lparr>transfers := (transfers tm)(tid \<mapsto> ?t1)\<rparr>"
  let ?u = "\<lparr>UpdateTransferID = TransferID ?t1, UpdateBytesSent = ?rec1,
             UpdateTotalBytes = fileSize, UpdateProgress = ?progress\<rparr>"
  let ?tm2 = "?tm1\<lparr>progressChan := progressChan ?tm1 @ [?u]\<rparr>"
  let ?fs1 = "fs(savePath \<mapsto> (case fs savePath of None \<Rightarrow> [] | Some old \<Rightarrow> old) @ data)"
  have ws: "write_errs = [] \<or> (\<exists>ws. write_errs = None # ws)"
    using Cons.prems(2) by (cases write_errs) (auto simp: no_write_error_def)
  have cnt: "chunks_received fileSize (r # conn) received
               = Suc (chunks_received fileSize conn ?rec1)"
    using True r by simp
  show ?case
  proof (cases "length (progressChan tm) < ProgressChanCapacity")
    case False
    then have full: "send_progress ?tm1 ?u = None"
      by (simp add: send_progress_def)
    show ?thesis
      using True ws Cons.prems(3) r full
      by (auto simp: with_transfer_Some Let_def)
  next
    case room: True
    have sp: "send_progress ?tm1 ?u = Some ?tm2"
      using room by (simp add: send_progress_def)
    have step: "receive_loop savePath fileSize tid (r # conn) write_errs received (tm, fs)
              = receive_loop savePath fileSize tid conn (tl write_errs) ?rec1 (?tm2, ?fs1)"
      using True ws Cons.prems(3) r sp
      by (auto simp: with_transfer_Some Let_def)
    have t2: "transfers ?tm2 tid = Some ?t1" by simp
    have more: "ProgressChanCapacity < length (progressChan ?tm2) + chunks_received fileSize conn ?rec1"
      using Cons.prems(4) unfolding cnt by simp
    have le: "length (progressChan ?tm2) \<le> ProgressChanCapacity"
      using room by simp
    from Cons.IH[where write_errs = "tl write_errs" and tm = ?tm2 and t = ?t1 and fs = ?fs1
        and received = ?rec1,
        OF rest no_write_error_tl[OF Cons.prems(2)] t2 more le]
    show ?thesis unfolding step .
  qed
qed

lemma receiveFile_waits:
  assumes "create_err = None" and "no_read_error conn" and "no_write_error write_errs"
    and "transfers tm tid = Some t"
    and "ProgressChanCapacity < length (progressChan tm) + chunks_received fileSize conn 0"
    and "length (progressChan tm) \<le> ProgressChanCapacity"
  shows "\<exists>st. receiveFile sha256 create_err conn write_errs copy_err savePath fileSize checksum
                 tid now (tm, fs) = Waiting st"
proof -
  from receive_loop_waits[where fs = "fs(savePath \<mapsto> [])" and savePath = savePath
      and fileSize = fileSize and received = 0, OF assms(2,3,4,5,6)]
  obtain st where "receive_loop savePath fileSize tid conn write_errs 0
                     (tm, fs(savePath \<mapsto> [])) = Waiting st"
    by blast
  then show ?thesis
    unfolding receiveFile_def using assms(1) by simp
qed






text \<open>
  What \<open>CancelTransfer\<close> itself does is as claimed: it cancels an active transfer and
  rejects every other request without touching the manager; and \<open>completeTransfer\<close>,
  which both callers defer, leaves every status but \<open>active\<close> alone.
\<close>

lemma CancelTransfer_active:
  assumes "transfers tm tid = Some t" and "Status t = TransferActive"
  shows "CancelTransfer tm tid now =
           (None, tm\<lparr>transfers := (transfers tm)
                          (tid \<mapsto> t\<lparr>Status := TransferCancelled, EndTime := now\<rparr>)\<rparr>)"
  using assms by (simp add: CancelTransfer_def)

lemma CancelTransfer_rejected:
  assumes "transfers tm tid = None \<or> (\<exists>t. transfers tm tid = Some t \<and> Status t \<noteq> TransferActive)"
  shows "fst (CancelTransfer tm tid now) \<noteq> None \<and> snd (CancelTransfer tm tid now) = tm"
  using assms by (auto simp: CancelTransfer_def)

lemma completeTransfer_keeps_final_status:
  assumes "transfers tm tid = Some t" and "Status t \<noteq> TransferActive"
  shows "map_option Status (transfers (completeTransfer tm tid now) tid) = Some (Status t)"
  using assms by (simp add: completeTransfer_def with_transfer_def)

text \<open>
  Claim C8 fails on the code in its first half. \<open>CancelTransfer\<close> turns an active
  transfer into a cancelled one, but \<open>streamFile\<close> never reads the status: after the
  cancellation, issued when the first chunk has gone out, the loop sends the second
  chunk and then overwrites \<open>cancelled\<close> with \<open>completed\<close>.
\<close>

theorem streamFile_overwrites_cancelled:
  "streamFile None [([1, 2], None), ([3, 4], None)] [] ''t1'' 9
       (addTransfer NewTransferManager upload_t1, [])
     = streamFile_loop [([3, 4], None)] [] ''t1'' 9 (upload_after_first_chunk, [1, 2])
   \<and> CancelTransfer upload_after_first_chunk ''t1'' 7
     = (None, upload_after_first_chunk
          \<lparr>transfers := [''t1'' \<mapsto> upload_t1\<lparr>SentBytes := 2, Progress := 50,
                                               Status := TransferCancelled, EndTime := 7\<rparr>]\<rparr>)
   \<and> streamFile_loop [([3, 4], None)] [] ''t1'' 9
       (snd (CancelTransfer upload_after_first_chunk ''t1'' 7), [1, 2])
     = Returned (None,
        upload_after_first_chunk
          \<lparr>transfers := [''t1'' \<mapsto> upload_t1\<lparr>SentBytes := 4, Progress := 100,
                                               Status := TransferCompleted, EndTime := 9\<rparr>],
           progressChan := progressChan upload_after_first_chunk @
             [\<lparr>UpdateTransferID = ''t1'', UpdateBytesSent = 4,
               UpdateTotalBytes = 4, UpdateProgress = 100\<rparr>],
           totalUploads := 1, bytesUploaded := 4\<rparr>,
        [1, 2, 3, 4])"
  by (simp add: streamFile_def CancelTransfer_def upload_after_first_chunk_def upload_t1_def
      addTransfer_def NewTransferManager_def with_transfer_def int64_def Let_def
      send_progress_def ProgressChanCapacity_def
      TransferActive_def TransferCancelled_def TransferCompleted_def)


text \<open>
  In general: from any state, whatever the status of the transfer, a stream without
  read and write errors, with room in the progress channel for its updates, runs to its
  end and leaves the transfer \<open>completed\<close>.
\<close>

lemma streamFile_loop_never_reads_status:
  assumes "no_read_error reads" and "no_write_error write_errs"
    and "transfers tm tid = Some t"
    and "length (progressChan tm) + length reads \<le> ProgressChanCapacity"
  shows "\<exists>tm' t' wire'.
           streamFile_loop reads write_errs tid now (tm, wire) = Returned (None, tm', wire')
           \<and> transfers tm' tid = Some t' \<and> Status t' = TransferCompleted"
  using assms
proof (induction reads arbitrary: write_errs tm t wire)
  case Nil
  then show ?case by (simp add: with_transfer_Some)
next
  case (Cons r reads)
  obtain data err where r: "r = (data, err)" by (cases r)
  from Cons.prems(1) r have err: "err = None \<or> err = Some EOF" and rest: "no_read_error reads"
    by (simp_all add: no_read_error_def)
  from err show ?case
  proof
    assume "err = Some EOF"
    with r Cons.prems(3) show ?thesis by (simp add: with_transfer_Some)
  next
    assume none: "err = None"
    have ws: "write_errs = [] \<or> (\<exists>ws. write_errs = None # ws)"
      using Cons.prems(2) by (cases write_errs) (auto simp: no_write_error_def)
    let ?t1 = "t\<lparr>SentBytes := int64 (SentBytes t + int (length data)),
                  Progress := real_of_int (int64 (SentBytes t + int (length data)))
                              / real_of_int (TotalBytes t) * 100\<rparr>"
    let ?tm1 = "tm\<lparr>transfers := (transfers tm)(tid \<mapsto> ?t1)\<rparr>"
    let ?u = "\<lparr>UpdateTransferID = TransferID ?t1, UpdateBytesSent = SentBytes ?t1,
               UpdateTotalBytes = TotalBytes ?t1, UpdateProgress = Progress ?t1\<rparr>"
    let ?tm2 = "?tm1\<lparr>progressChan := progressChan ?tm1 @ [?u]\<rparr>"
    have room: "length (progressChan ?tm1) < ProgressChanCapacity"
      using Cons.prems(4) by simp
    have room2: "length (progressChan ?tm2) + length reads \<le> ProgressChanCapacity"
      using Cons.prems(4) by simp
    have step: "streamFile_loop (r # reads) write_errs tid now (tm, wire)
                  = streamFile_loop reads (tl write_errs) tid now (?tm2, wire @ data)"
      using none ws Cons.prems(3) r send_progress_room[OF room, of ?u]
      by (auto simp: with_transfer_Some Let_def)
    have t2: "transfers ?tm2 tid = Some ?t1" by simp
    from Cons.IH[where write_errs = "tl write_errs" and tm = ?tm2 and t = ?t1
        and wire = "wire @ data", OF rest no_write_error_tl[OF Cons.prems(2)] t2 room2]
    show ?thesis unfolding step .
  qed
qed


end
